theory Spec2Isabelle
  imports Main "HOL-Library.AList" "HOL-Library.Word"
begin

section \<open>The shader loader of vita3k/glutil/src/shader.cpp\<close>

text \<open>
  \<^verbatim>\<open>gl::load_shaders\<close> is sequential glue around three collaborators: the asset reader
  \<^verbatim>\<open>fs_utils::read_asset_raw\<close>, the logging macro \<^verbatim>\<open>LOG_ERROR\<close> and the OpenGL driver.
  The embedding threads one explicit \<open>world\<close> through every call. The world holds the
  driver's object store and the trace of everything the function did to its
  collaborators, in program order. What the collaborators answer (the bytes of a file,
  whether the driver can create an object, the verdict of the compiler and of the
  linker, the result of \<^verbatim>\<open>GLObject::init\<close>) is not decided by this file and is a
  parameter, collected in the record \<open>env\<close>.
\<close>

subsection \<open>Data\<close>

text \<open>
  Object names are \<^verbatim>\<open>GLuint\<close>. The code only stores and passes them on, so they are
  natural numbers here, which gives the driver an inexhaustible supply of unused names.
  The name 0 is never an object: it is what a creation call returns when it fails.
  \<^verbatim>\<open>GLint\<close> and \<^verbatim>\<open>int\<close> values are status flags and buffer lengths; arithmetic on them is
  exact here, an information log being far shorter than \<^verbatim>\<open>INT_MAX\<close>.
\<close>

type_synonym GLuint = nat
type_synonym GLint = int
type_synonym path = string

datatype shader_type = GL_VERTEX_SHADER | GL_FRAGMENT_SHADER

datatype pname = GL_COMPILE_STATUS | GL_INFO_LOG_LENGTH | GL_LINK_STATUS

record shader_obj =
  stype :: shader_type
  source :: string
  compile_status :: bool
  shader_log :: string
  delete_pending :: bool

record program_obj =
  attached :: "GLuint list"
  link_status :: bool
  program_log :: string

text \<open>The arguments of a \<^verbatim>\<open>LOG_ERROR\<close> call: the format string is kept apart from them.\<close>

datatype log_arg = ArgPath path | ArgCStr string

text \<open>
  One event for each call to a collaborator. A query records what the driver wrote into
  the caller's variable: \<open>Some v\<close>, or \<open>None\<close> when the call raised a GL error and wrote
  nothing.
\<close>

datatype event =
    CreateShader shader_type GLuint
  | ReadAssetRaw path
  | ShaderSource GLuint "string list"
  | CompileShader GLuint
  | GetShaderiv GLuint pname "GLint option"
  | GetShaderInfoLog GLuint int
  | CreateProgram GLuint
  | AttachShader GLuint GLuint
  | LinkProgram GLuint
  | GetProgramiv GLuint pname "GLint option"
  | GetProgramInfoLog GLuint int
  | DetachShader GLuint GLuint
  | DeleteShader GLuint
  | DeleteProgram GLuint
  | LogError string "log_arg list"

text \<open>
  The driver has handed out the names \<open>1, \<dots>, last_name\<close> so far; the next object it
  creates is named \<open>Suc last_name\<close>.
\<close>

record world =
  shaders :: "(GLuint \<times> shader_obj) list"
  programs :: "(GLuint \<times> program_obj) list"
  last_name :: GLuint
  trace :: "event list"

text \<open>
  The environment of a call: whether the build defines \<^verbatim>\<open>ANDROID\<close>; the bytes
  \<^verbatim>\<open>read_asset_raw\<close> finds under a path (none for a missing asset); whether the driver
  manages to create a shader object of a type, and a program object; the verdict and the
  information log of the GLSL compiler for a source and of the linker for the attached
  shader objects; the answer of \<^verbatim>\<open>GLObject::init\<close>; and the value that the uninitialised
  local \<^verbatim>\<open>info_log_length\<close> happens to hold as long as the driver has not written it.
\<close>

record env =
  ANDROID :: bool
  asset_bytes :: "path \<Rightarrow> 8 word list"
  create_shader_ok :: "shader_type \<Rightarrow> bool"
  create_program_ok :: bool
  compiler :: "shader_type \<Rightarrow> string \<Rightarrow> bool \<times> string"
  linker :: "shader_obj list \<Rightarrow> bool \<times> string"
  init_ok :: "GLuint \<Rightarrow> bool"
  indeterminate :: int

text \<open>
  \<^verbatim>\<open>GLObject\<close> (glutil/object.h) pairs a name with the driver call that releases it;
  \<^verbatim>\<open>UniqueGLObject\<close> is a \<^verbatim>\<open>std::unique_ptr\<close> to it, empty when it is \<open>None\<close>.
\<close>

record GLObject =
  name :: GLuint
  deleter :: "GLuint \<Rightarrow> world \<Rightarrow> world"

type_synonym UniqueGLObject = "GLObject option"

text \<open>
  What a call can do instead of returning: the constructor of \<^verbatim>\<open>std::vector\<close> throws
  \<^verbatim>\<open>std::length_error\<close> for a size beyond \<^verbatim>\<open>max_size()\<close>, and the address of element 0
  of an empty vector is not defined.
\<close>

datatype fault = Length_error | Undefined_behaviour

subsection \<open>C strings and buffers\<close>

definition NUL :: char where
  "NUL = CHR 0x00"

text \<open>What a reader of a \<^verbatim>\<open>const char*\<close> sees: the characters before the first NUL.\<close>

definition c_str :: "string \<Rightarrow> string" where
  "c_str s = takeWhile (\<lambda>c. c \<noteq> NUL) s"

text \<open>\<^verbatim>\<open>resize\<close> and \<^verbatim>\<open>memcpy\<close> of the raw bytes into a \<^verbatim>\<open>std::string\<close>.\<close>

definition string_of_bytes :: "8 word list \<Rightarrow> string" where
  "string_of_bytes bs = map (\<lambda>b. char_of (unat b)) bs"

text \<open>
  \<^verbatim>\<open>std::vector<char> v(n); \<dots> &v[0]\<close>, lines 78-79, 93-94 and 109-110. The \<^verbatim>\<open>int\<close>
  \<open>n\<close> is converted to the unsigned \<^verbatim>\<open>size_type\<close>, so a negative \<open>n\<close> asks for more
  than \<^verbatim>\<open>max_size()\<close> elements. Otherwise the vector holds \<open>n\<close> value-initialised
  characters (the allocation is taken to succeed), and the pointer to its first element
  is taken.
\<close>

definition message_buffer :: "int \<Rightarrow> fault + string" where
  "message_buffer n =
     (if n < 0 then Inl Length_error
      else if n = 0 then Inl Undefined_behaviour
      else Inr (replicate (nat n) NUL))"

text \<open>
  How the driver returns an information log (OpenGL 4.1, section 6.1.10): the length
  query counts the terminating NUL and is 0 for an empty log; the log query writes at
  most \<open>bufSize\<close> characters into the buffer, the terminator included.
\<close>

definition info_log_length_of :: "string \<Rightarrow> int" where
  "info_log_length_of l = (if l = [] then 0 else int (length l) + 1)"

definition write_info_log :: "string \<Rightarrow> int \<Rightarrow> string \<Rightarrow> string" where
  "write_info_log l bufSize buf =
     (if bufSize \<le> 0 then buf
      else let k = min (nat bufSize - 1) (length l)
           in take k l @ NUL # drop (Suc k) buf)"

subsection \<open>The collaborators\<close>

definition emit :: "event \<Rightarrow> world \<Rightarrow> world" where
  "emit e w = w\<lparr>trace := trace w @ [e]\<rparr>"

definition read_asset_raw :: "env \<Rightarrow> path \<Rightarrow> world \<Rightarrow> 8 word list \<times> world" where
  "read_asset_raw E p w = (asset_bytes E p, emit (ReadAssetRaw p) w)"

definition LOG_ERROR :: "string \<Rightarrow> log_arg list \<Rightarrow> world \<Rightarrow> world" where
  "LOG_ERROR fmt args w = emit (LogError fmt args) w"

text \<open>
  The driver, after the OpenGL specification. A creation call returns a new name, or 0
  when the driver cannot create the object. A call on a name that is not an object of
  the expected kind (0 never is) raises a GL error and changes nothing; a query then
  leaves the caller's variable as it was, which is why the queries take its old value.
  \<^verbatim>\<open>glDeleteShader\<close> ignores the name 0. What the GLSL compiler and the linker answer is
  the environment's.
\<close>

definition shader_named :: "(GLuint \<times> shader_obj) list \<Rightarrow> GLuint \<Rightarrow> shader_obj option" where
  "shader_named ss h = (if h = 0 then None else map_of ss h)"

definition program_named :: "(GLuint \<times> program_obj) list \<Rightarrow> GLuint \<Rightarrow> program_obj option" where
  "program_named ps p = (if p = 0 then None else map_of ps p)"

definition glCreateShader :: "env \<Rightarrow> shader_type \<Rightarrow> world \<Rightarrow> GLuint \<times> world" where
  "glCreateShader E t w =
     (if create_shader_ok E t
      then let h = Suc (last_name w)
           in (h, emit (CreateShader t h)
                    (w\<lparr>shaders := AList.update h
                          \<lparr>stype = t, source = [], compile_status = False,
                           shader_log = [], delete_pending = False\<rparr> (shaders w),
                        last_name := h\<rparr>))
      else (0, emit (CreateShader t 0) w))"

definition glShaderSource :: "GLuint \<Rightarrow> string list \<Rightarrow> world \<Rightarrow> world" where
  "glShaderSource h strs w =
     emit (ShaderSource h strs)
       (case shader_named (shaders w) h of
          None \<Rightarrow> w
        | Some so \<Rightarrow> w\<lparr>shaders := AList.update h (so\<lparr>source := concat strs\<rparr>) (shaders w)\<rparr>)"

definition glCompileShader :: "env \<Rightarrow> GLuint \<Rightarrow> world \<Rightarrow> world" where
  "glCompileShader E h w =
     emit (CompileShader h)
       (case shader_named (shaders w) h of
          None \<Rightarrow> w
        | Some so \<Rightarrow>
            (let (ok, l) = compiler E (stype so) (source so)
             in w\<lparr>shaders := AList.update h
                     (so\<lparr>compile_status := ok, shader_log := l\<rparr>) (shaders w)\<rparr>))"

definition glGetShaderiv :: "GLuint \<Rightarrow> pname \<Rightarrow> GLint \<Rightarrow> world \<Rightarrow> GLint \<times> world" where
  "glGetShaderiv h pn old w =
     (let written =
            (case shader_named (shaders w) h of
               None \<Rightarrow> None
             | Some so \<Rightarrow>
                 (case pn of
                    GL_COMPILE_STATUS \<Rightarrow> Some (if compile_status so then 1 else 0)
                  | GL_INFO_LOG_LENGTH \<Rightarrow> Some (info_log_length_of (shader_log so))
                  | GL_LINK_STATUS \<Rightarrow> None))
      in (case written of None \<Rightarrow> old | Some v \<Rightarrow> v, emit (GetShaderiv h pn written) w))"

definition glGetShaderInfoLog :: "GLuint \<Rightarrow> int \<Rightarrow> string \<Rightarrow> world \<Rightarrow> string \<times> world" where
  "glGetShaderInfoLog h bufSize buf w =
     (case shader_named (shaders w) h of
        None \<Rightarrow> buf
      | Some so \<Rightarrow> write_info_log (shader_log so) bufSize buf,
      emit (GetShaderInfoLog h bufSize) w)"

definition glCreateProgram :: "env \<Rightarrow> world \<Rightarrow> GLuint \<times> world" where
  "glCreateProgram E w =
     (if create_program_ok E
      then let p = Suc (last_name w)
           in (p, emit (CreateProgram p)
                    (w\<lparr>programs := AList.update p
                          \<lparr>attached = [], link_status = False, program_log = []\<rparr> (programs w),
                        last_name := p\<rparr>))
      else (0, emit (CreateProgram 0) w))"

definition glAttachShader :: "GLuint \<Rightarrow> GLuint \<Rightarrow> world \<Rightarrow> world" where
  "glAttachShader p h w =
     emit (AttachShader p h)
       (case (program_named (programs w) p, shader_named (shaders w) h) of
          (Some po, Some so) \<Rightarrow>
            (if h \<in> set (attached po) then w
             else w\<lparr>programs := AList.update p (po\<lparr>attached := attached po @ [h]\<rparr>) (programs w)\<rparr>)
        | _ \<Rightarrow> w)"

definition glLinkProgram :: "env \<Rightarrow> GLuint \<Rightarrow> world \<Rightarrow> world" where
  "glLinkProgram E p w =
     emit (LinkProgram p)
       (case program_named (programs w) p of
          None \<Rightarrow> w
        | Some po \<Rightarrow>
            (let (ok, l) = linker E (List.map_filter (shader_named (shaders w)) (attached po))
             in w\<lparr>programs := AList.update p
                     (po\<lparr>link_status := ok, program_log := l\<rparr>) (programs w)\<rparr>))"

definition glGetProgramiv :: "GLuint \<Rightarrow> pname \<Rightarrow> GLint \<Rightarrow> world \<Rightarrow> GLint \<times> world" where
  "glGetProgramiv p pn old w =
     (let written =
            (case program_named (programs w) p of
               None \<Rightarrow> None
             | Some po \<Rightarrow>
                 (case pn of
                    GL_LINK_STATUS \<Rightarrow> Some (if link_status po then 1 else 0)
                  | GL_INFO_LOG_LENGTH \<Rightarrow> Some (info_log_length_of (program_log po))
                  | GL_COMPILE_STATUS \<Rightarrow> None))
      in (case written of None \<Rightarrow> old | Some v \<Rightarrow> v, emit (GetProgramiv p pn written) w))"

definition glGetProgramInfoLog :: "GLuint \<Rightarrow> int \<Rightarrow> string \<Rightarrow> world \<Rightarrow> string \<times> world" where
  "glGetProgramInfoLog p bufSize buf w =
     (case program_named (programs w) p of
        None \<Rightarrow> buf
      | Some po \<Rightarrow> write_info_log (program_log po) bufSize buf,
      emit (GetProgramInfoLog p bufSize) w)"

text \<open>
  A shader that is attached to a program is only flagged by \<^verbatim>\<open>glDeleteShader\<close>; the
  driver deletes a flagged shader once no program holds it any more.
\<close>

definition is_attached :: "GLuint \<Rightarrow> (GLuint \<times> program_obj) list \<Rightarrow> bool" where
  "is_attached h ps = list_ex (\<lambda>(p, po). h \<in> set (attached po)) ps"

definition release_shader :: "GLuint \<Rightarrow> world \<Rightarrow> world" where
  "release_shader h w =
     (case shader_named (shaders w) h of
        None \<Rightarrow> w
      | Some so \<Rightarrow>
          (if delete_pending so \<and> \<not> is_attached h (programs w)
           then w\<lparr>shaders := AList.delete h (shaders w)\<rparr>
           else w))"

definition glDetachShader :: "GLuint \<Rightarrow> GLuint \<Rightarrow> world \<Rightarrow> world" where
  "glDetachShader p h w =
     emit (DetachShader p h)
       (case program_named (programs w) p of
          None \<Rightarrow> w
        | Some po \<Rightarrow>
            (if h \<in> set (attached po)
             then release_shader h
                    (w\<lparr>programs := AList.update p
                          (po\<lparr>attached := removeAll h (attached po)\<rparr>) (programs w)\<rparr>)
             else w))"

definition glDeleteShader :: "GLuint \<Rightarrow> world \<Rightarrow> world" where
  "glDeleteShader h w =
     emit (DeleteShader h)
       (case shader_named (shaders w) h of
          None \<Rightarrow> w
        | Some so \<Rightarrow>
            (if is_attached h (programs w)
             then w\<lparr>shaders := AList.update h (so\<lparr>delete_pending := True\<rparr>) (shaders w)\<rparr>
             else w\<lparr>shaders := AList.delete h (shaders w)\<rparr>))"

definition glDeleteProgram :: "GLuint \<Rightarrow> world \<Rightarrow> world" where
  "glDeleteProgram p w =
     emit (DeleteProgram p)
       (case program_named (programs w) p of
          None \<Rightarrow> w
        | Some po \<Rightarrow>
            fold release_shader (attached po) (w\<lparr>programs := AList.delete p (programs w)\<rparr>))"

text \<open>
  \<^verbatim>\<open>GLObject\<close> and its \<^verbatim>\<open>init\<close> are declared in glutil/object.h, which is not among the
  sources. Whether \<^verbatim>\<open>init\<close> accepts a name is the parameter \<open>init_ok\<close>: line 122 tests
  its answer. An object that accepted holds the name and the deleter it was given.
  When \<^verbatim>\<open>init\<close> refuses, line 123 returns an empty pointer and the object is destroyed;
  what its destructor does then is decided by glutil/object.h as well and is not part
  of this model. The world that \<open>load_shaders\<close> returns is the world at the
  \<^verbatim>\<open>return\<close> statement.
\<close>

definition GLObject_init :: "env \<Rightarrow> GLuint \<Rightarrow> (GLuint \<Rightarrow> world \<Rightarrow> world) \<Rightarrow> GLObject option" where
  "GLObject_init E n d = (if init_ok E n then Some \<lparr>name = n, deleter = d\<rparr> else None)"

subsection \<open>\<^verbatim>\<open>gl::load_shaders\<close>\<close>

definition gl_version :: "env \<Rightarrow> string" where
  "gl_version E =
     (if ANDROID E then ''#version 300 es\<newline>precision highp float;\<newline>''
      else ''#version 410 core\<newline>'')"

text \<open>
  The result is \<open>Inr\<close> of the pointer the call returns, or \<open>Inl\<close> of the fault that
  ended it. The local \<^verbatim>\<open>result\<close> starts at 0 (line 66) and is reused by all three
  checks; \<^verbatim>\<open>info_log_length\<close> starts uninitialised (line 67).
\<close>

definition load_shaders ::
  "env \<Rightarrow> path \<Rightarrow> path \<Rightarrow> world \<Rightarrow> (fault + UniqueGLObject) \<times> world" where
  "load_shaders E vertex_file_path fragment_file_path w0 =
     (let (vs, w1) = glCreateShader E GL_VERTEX_SHADER w0;
          (fs, w2) = glCreateShader E GL_FRAGMENT_SHADER w1;
          (vs_code_raw, w3) = read_asset_raw E vertex_file_path w2;
          vs_code = string_of_bytes vs_code_raw;
          (fs_code_raw, w4) = read_asset_raw E fragment_file_path w3;
          fs_code = string_of_bytes fs_code_raw
      in if vs_code = [] \<or> fs_code = [] then
           (Inr None, LOG_ERROR ''Couldn't open shader: {}'' [ArgPath vertex_file_path] w4)
         else
           let result = 0;
               info_log_length = indeterminate E;
               w5 = glShaderSource vs [c_str (gl_version E), c_str vs_code] w4;
               w6 = glCompileShader E vs w5;
               (result, w7) = glGetShaderiv vs GL_COMPILE_STATUS result w6;
               (info_log_length, w8) = glGetShaderiv vs GL_INFO_LOG_LENGTH info_log_length w7
           in if result = 0 then
                (case message_buffer (info_log_length + 1) of
                   Inl thrown \<Rightarrow> (Inl thrown, w8)
                 | Inr buffer \<Rightarrow>
                     let (vertex_shader_error_message, w9) =
                           glGetShaderInfoLog vs info_log_length buffer w8
                     in (Inr None, LOG_ERROR ''Error compiling vertex shader: {}\<newline>''
                                     [ArgCStr (c_str vertex_shader_error_message)] w9))
              else
                let w9 = glShaderSource fs [c_str (gl_version E), c_str fs_code] w8;
                    w10 = glCompileShader E fs w9;
                    (result, w11) = glGetShaderiv fs GL_COMPILE_STATUS result w10;
                    (info_log_length, w12) = glGetShaderiv fs GL_INFO_LOG_LENGTH info_log_length w11
                in if result = 0 then
                     (case message_buffer (info_log_length + 1) of
                        Inl thrown \<Rightarrow> (Inl thrown, w12)
                      | Inr buffer \<Rightarrow>
                          let (fragment_shader_error_message, w13) =
                                glGetShaderInfoLog fs info_log_length buffer w12
                          in (Inr None, LOG_ERROR ''Error compiling fragment shader: {}\<newline>''
                                          [ArgCStr (c_str fragment_shader_error_message)] w13))
                   else
                     let (program, w13) = glCreateProgram E w12;
                         w14 = glAttachShader program vs w13;
                         w15 = glAttachShader program fs w14;
                         w16 = glLinkProgram E program w15;
                         (result, w17) = glGetProgramiv program GL_LINK_STATUS result w16;
                         (info_log_length, w18) =
                           glGetProgramiv program GL_INFO_LOG_LENGTH info_log_length w17
                     in if result = 0 then
                          (case message_buffer (info_log_length + 1) of
                             Inl thrown \<Rightarrow> (Inl thrown, w18)
                           | Inr buffer \<Rightarrow>
                               let (program_error_message, w19) =
                                     glGetProgramInfoLog program info_log_length buffer w18
                               in (Inr None, LOG_ERROR ''Error linking shader program: {}\<newline>''
                                               [ArgCStr (c_str program_error_message)] w19))
                        else
                          let w19 = glDetachShader program vs w18;
                              w20 = glDetachShader program fs w19;
                              w21 = glDeleteShader vs w20;
                              w22 = glDeleteShader fs w21
                          in (Inr (GLObject_init E program glDeleteProgram), w22))"

subsection \<open>One call, seen from outside\<close>

text \<open>
  The terms in which the properties of a call are stated: the names the three creation
  calls return, the text read from a path, the source the driver receives for it, the
  shader object a compilation leaves behind, the program object a link of both shader
  objects leaves behind, and the events a call appended to the trace.
\<close>

definition vs_name :: "env \<Rightarrow> world \<Rightarrow> GLuint" where
  "vs_name E w = (if create_shader_ok E GL_VERTEX_SHADER then Suc (last_name w) else 0)"

definition fs_name :: "env \<Rightarrow> world \<Rightarrow> GLuint" where
  "fs_name E w =
     (if create_shader_ok E GL_FRAGMENT_SHADER
      then (if create_shader_ok E GL_VERTEX_SHADER then Suc (Suc (last_name w)) else Suc (last_name w))
      else 0)"

definition shader_code :: "env \<Rightarrow> path \<Rightarrow> string" where
  "shader_code E p = string_of_bytes (asset_bytes E p)"

definition shader_source :: "env \<Rightarrow> path \<Rightarrow> string" where
  "shader_source E p = gl_version E @ c_str (shader_code E p)"

definition created :: "shader_type \<Rightarrow> shader_obj" where
  "created t = \<lparr>stype = t, source = [], compile_status = False, shader_log = [], delete_pending = False\<rparr>"

definition compiled :: "env \<Rightarrow> shader_type \<Rightarrow> path \<Rightarrow> shader_obj" where
  "compiled E t p =
     \<lparr>stype = t, source = shader_source E p,
      compile_status = fst (compiler E t (shader_source E p)),
      shader_log = snd (compiler E t (shader_source E p)),
      delete_pending = False\<rparr>"

definition linked :: "env \<Rightarrow> path \<Rightarrow> path \<Rightarrow> GLuint list \<Rightarrow> program_obj" where
  "linked E vp fp hs =
     \<lparr>attached = hs,
      link_status = fst (linker E [compiled E GL_VERTEX_SHADER vp, compiled E GL_FRAGMENT_SHADER fp]),
      program_log = snd (linker E [compiled E GL_VERTEX_SHADER vp, compiled E GL_FRAGMENT_SHADER fp])\<rparr>"

definition new_events :: "world \<Rightarrow> world \<Rightarrow> event list" where
  "new_events w w' = drop (length (trace w)) (trace w')"

text \<open>Kinds of events, to say which calls a run did and did not make.\<close>

fun is_compiler_call :: "event \<Rightarrow> bool" where
  "is_compiler_call (ShaderSource h strs) = True"
| "is_compiler_call (CompileShader h) = True"
| "is_compiler_call _ = False"

fun is_creation :: "event \<Rightarrow> bool" where
  "is_creation (CreateShader t h) = True"
| "is_creation (CreateProgram p) = True"
| "is_creation _ = False"

fun is_read :: "event \<Rightarrow> bool" where
  "is_read (ReadAssetRaw p) = True"
| "is_read _ = False"

fun is_cleanup :: "event \<Rightarrow> bool" where
  "is_cleanup (DetachShader p h) = True"
| "is_cleanup (DeleteShader h) = True"
| "is_cleanup (DeleteProgram p) = True"
| "is_cleanup _ = False"



fun is_log :: "event \<Rightarrow> bool" where
  "is_log (LogError fmt args) = True"
| "is_log _ = False"

text \<open>
  An invariant of the driver's store: a program holds only names that the driver has
  handed out. Every driver call above keeps it.
\<close>

definition names_fresh :: "world \<Rightarrow> bool" where
  "names_fresh w =
     list_all (\<lambda>(p, po). list_all (\<lambda>h. h \<le> last_name w) (attached po)) (programs w)"

subsection \<open>The linear pass of the specification\<close>

text \<open>
  The specification describes one linear pass: read the vertex source, read the
  fragment source, validate that both are non-empty, compile the vertex shader, compile
  the fragment shader, link, detach and delete the shader objects, wrap and return the
  program. The definitions of this subsection write that pass down on their own, from
  the environment alone and without the functions of the embedding, to be compared with
  it: what each stage calls, what it is answered, and where the pass ends.
\<close>

definition preamble :: "env \<Rightarrow> string" where
  "preamble E =
     (if ANDROID E then ''#version 300 es\<newline>precision highp float;\<newline>''
      else ''#version 410 core\<newline>'')"

text \<open>The text of a file as the compiler reads it: up to the first zero byte.\<close>

definition file_text :: "env \<Rightarrow> path \<Rightarrow> string" where
  "file_text E p = map (\<lambda>b. char_of (unat b)) (takeWhile (\<lambda>b. b \<noteq> 0) (asset_bytes E p))"

definition compiler_says :: "env \<Rightarrow> shader_type \<Rightarrow> path \<Rightarrow> bool \<times> string" where
  "compiler_says E t p = compiler E t (preamble E @ file_text E p)"

definition shader_after_compile :: "env \<Rightarrow> shader_type \<Rightarrow> path \<Rightarrow> shader_obj" where
  "shader_after_compile E t p =
     \<lparr>stype = t, source = preamble E @ file_text E p,
      compile_status = fst (compiler_says E t p), shader_log = snd (compiler_says E t p),
      delete_pending = False\<rparr>"

text \<open>The linker sees the shader objects that exist: the fragment shader only if it was created.\<close>

definition linker_says :: "env \<Rightarrow> path \<Rightarrow> path \<Rightarrow> bool \<times> string" where
  "linker_says E vp fp =
     linker E (shader_after_compile E GL_VERTEX_SHADER vp #
               (if create_shader_ok E GL_FRAGMENT_SHADER
                then [shader_after_compile E GL_FRAGMENT_SHADER fp] else []))"

definition log_length :: "string \<Rightarrow> int" where
  "log_length l = (if l = [] then 0 else int (length l) + 1)"

definition log_text :: "string \<Rightarrow> string" where
  "log_text l = takeWhile (\<lambda>c. c \<noteq> CHR 0x00) l"

text \<open>
  The three checks of lines 77, 92 and 108 read the one variable \<^verbatim>\<open>result\<close>. A check
  fails when the driver wrote 0 into it. When the driver wrote nothing, because the
  object does not exist, the variable still holds what it held before: 0 at the first
  check, and the 1 of the check before at the second and third.
\<close>

definition vertex_check_passes :: "env \<Rightarrow> path \<Rightarrow> bool" where
  "vertex_check_passes E vp =
     (create_shader_ok E GL_VERTEX_SHADER \<and> fst (compiler_says E GL_VERTEX_SHADER vp))"

definition fragment_check_fails :: "env \<Rightarrow> path \<Rightarrow> bool" where
  "fragment_check_fails E fp =
     (create_shader_ok E GL_FRAGMENT_SHADER \<and> \<not> fst (compiler_says E GL_FRAGMENT_SHADER fp))"

definition link_check_fails :: "env \<Rightarrow> path \<Rightarrow> path \<Rightarrow> bool" where
  "link_check_fails E vp fp = (create_program_ok E \<and> \<not> fst (linker_says E vp fp))"

definition program_name :: "env \<Rightarrow> world \<Rightarrow> GLuint" where
  "program_name E w =
     (if create_program_ok E
      then Suc (last_name w + (if create_shader_ok E GL_VERTEX_SHADER then 1 else 0)
                            + (if create_shader_ok E GL_FRAGMENT_SHADER then 1 else 0))
      else 0)"

definition setup_events :: "env \<Rightarrow> path \<Rightarrow> path \<Rightarrow> world \<Rightarrow> event list" where
  "setup_events E vp fp w =
     [CreateShader GL_VERTEX_SHADER (vs_name E w), CreateShader GL_FRAGMENT_SHADER (fs_name E w),
      ReadAssetRaw vp, ReadAssetRaw fp]"

definition compile_events :: "env \<Rightarrow> shader_type \<Rightarrow> path \<Rightarrow> GLuint \<Rightarrow> event list" where
  "compile_events E t p h =
     [ShaderSource h [preamble E, file_text E p],
      CompileShader h,
      GetShaderiv h GL_COMPILE_STATUS
        (if create_shader_ok E t then Some (if fst (compiler_says E t p) then 1 else 0) else None),
      GetShaderiv h GL_INFO_LOG_LENGTH
        (if create_shader_ok E t then Some (log_length (snd (compiler_says E t p))) else None)]"

definition compile_failure_events :: "env \<Rightarrow> shader_type \<Rightarrow> path \<Rightarrow> GLuint \<Rightarrow> string \<Rightarrow> event list" where
  "compile_failure_events E t p h fmt =
     (if create_shader_ok E t
      then [GetShaderInfoLog h (log_length (snd (compiler_says E t p))),
            LogError fmt [ArgCStr (log_text (snd (compiler_says E t p)))]]
      else if indeterminate E + 1 \<le> 0 then []
      else [GetShaderInfoLog h (indeterminate E), LogError fmt [ArgCStr []]])"

definition link_events :: "env \<Rightarrow> path \<Rightarrow> path \<Rightarrow> world \<Rightarrow> event list" where
  "link_events E vp fp w =
     [CreateProgram (program_name E w),
      AttachShader (program_name E w) (vs_name E w),
      AttachShader (program_name E w) (fs_name E w),
      LinkProgram (program_name E w),
      GetProgramiv (program_name E w) GL_LINK_STATUS
        (if create_program_ok E then Some (if fst (linker_says E vp fp) then 1 else 0) else None),
      GetProgramiv (program_name E w) GL_INFO_LOG_LENGTH
        (if create_program_ok E then Some (log_length (snd (linker_says E vp fp))) else None)]"

definition link_failure_events :: "env \<Rightarrow> path \<Rightarrow> path \<Rightarrow> world \<Rightarrow> event list" where
  "link_failure_events E vp fp w =
     [GetProgramInfoLog (program_name E w) (log_length (snd (linker_says E vp fp))),
      LogError ''Error linking shader program: {}\<newline>''
        [ArgCStr (log_text (snd (linker_says E vp fp)))]]"

definition cleanup_events :: "env \<Rightarrow> world \<Rightarrow> event list" where
  "cleanup_events E w =
     [DetachShader (program_name E w) (vs_name E w),
      DetachShader (program_name E w) (fs_name E w),
      DeleteShader (vs_name E w), DeleteShader (fs_name E w)]"

text \<open>The stages in their fixed order, cut off after the first check that fails.\<close>

definition linear_pass :: "env \<Rightarrow> path \<Rightarrow> path \<Rightarrow> world \<Rightarrow> event list" where
  "linear_pass E vp fp w =
     setup_events E vp fp w @
     (if asset_bytes E vp = [] \<or> asset_bytes E fp = []
      then [LogError ''Couldn't open shader: {}'' [ArgPath vp]]
      else compile_events E GL_VERTEX_SHADER vp (vs_name E w) @
        (if \<not> vertex_check_passes E vp
         then compile_failure_events E GL_VERTEX_SHADER vp (vs_name E w)
                ''Error compiling vertex shader: {}\<newline>''
         else compile_events E GL_FRAGMENT_SHADER fp (fs_name E w) @
           (if fragment_check_fails E fp
            then compile_failure_events E GL_FRAGMENT_SHADER fp (fs_name E w)
                   ''Error compiling fragment shader: {}\<newline>''
            else link_events E vp fp w @
              (if link_check_fails E vp fp
               then link_failure_events E vp fp w
               else cleanup_events E w))))"

definition linear_result :: "env \<Rightarrow> path \<Rightarrow> path \<Rightarrow> world \<Rightarrow> fault + UniqueGLObject" where
  "linear_result E vp fp w =
     (if asset_bytes E vp = [] \<or> asset_bytes E fp = [] then Inr None
      else if \<not> vertex_check_passes E vp
      then (if create_shader_ok E GL_VERTEX_SHADER then Inr None
            else if indeterminate E + 1 < 0 then Inl Length_error
            else if indeterminate E + 1 = 0 then Inl Undefined_behaviour
            else Inr None)
      else if fragment_check_fails E fp then Inr None
      else if link_check_fails E vp fp then Inr None
      else if init_ok E (program_name E w)
           then Inr (Some \<lparr>name = program_name E w, deleter = glDeleteProgram\<rparr>)
           else Inr None)"

subsection \<open>A sample installation\<close>

text \<open>
  Two small assets, a driver that creates every object, a compiler and a linker that
  accept everything, an empty context.
\<close>

definition sample_assets :: "path \<Rightarrow> 8 word list" where
  "sample_assets p =
     (if p = ''vertex.glsl'' then [0x76, 0x6F, 0x69, 0x64, 0x20, 0x6D, 0x61, 0x69, 0x6E, 0x28, 0x29, 0x7B, 0x7D]
      else if p = ''fragment.glsl'' then [0x76, 0x6F, 0x69, 0x64, 0x20, 0x6D, 0x61, 0x69, 0x6E, 0x28, 0x29, 0x7B, 0x7D, 0x0A]
      else [])"

definition sample_env :: env where
  "sample_env =
     \<lparr>ANDROID = False, asset_bytes = sample_assets,
      create_shader_ok = (\<lambda>t. True), create_program_ok = True,
      compiler = (\<lambda>t s. (True, [])), linker = (\<lambda>os. (True, [])),
      init_ok = (\<lambda>n. n \<noteq> 0), indeterminate = 0\<rparr>"

definition fresh_context :: world where
  "fresh_context = \<lparr>shaders = [], programs = [], last_name = 0, trace = []\<rparr>"

section \<open>Running the embedding\<close>

subsection \<open>C strings and information logs\<close>

lemma c_str_append_NUL: "c_str (xs @ NUL # ys) = c_str xs"
  by (induction xs) (simp_all add: c_str_def)

lemma c_str_gl_version: "c_str (gl_version E) = gl_version E"
  by (simp add: c_str_def gl_version_def NUL_def)

lemma c_str_replicate_NUL: "c_str (replicate k NUL) = []"
  by (cases k) (simp_all add: c_str_def)

lemma message_buffer_driver:
  "message_buffer (info_log_length_of l + 1) = Inr (replicate (nat (info_log_length_of l + 1)) NUL)"
  by (simp add: message_buffer_def info_log_length_of_def)

lemma info_log_roundtrip:
  "c_str (write_info_log l (info_log_length_of l) (replicate (nat (info_log_length_of l + 1)) NUL)) = c_str l"
  by (simp add: write_info_log_def info_log_length_of_def c_str_append_NUL)
     (simp add: c_str_def NUL_def)

subsection \<open>The terms of the specification and those of the embedding\<close>

lemma char_of_unat_eq_NUL: "char_of (unat (b :: 8 word)) = NUL \<longleftrightarrow> b = 0"
proof
  assume "char_of (unat b) = NUL"
  then have "of_char (char_of (unat b)) = (of_char NUL :: nat)" by simp
  then have "unat b mod 256 = 0" by (simp add: NUL_def)
  moreover have "unat b < 256" using unsigned_less [of b, where ?'a = nat] by simp
  ultimately have "unat b = 0" by simp
  then show "b = 0" by (simp add: unsigned_eq_0_iff)
next
  assume "b = 0"
  then show "char_of (unat b) = NUL" by (simp add: NUL_def char_of_def)
qed

lemma file_text_eq: "file_text E p = c_str (shader_code E p)"
proof -
  have "takeWhile (\<lambda>c. c \<noteq> NUL) (map (\<lambda>b. char_of (unat b)) bs) =
        map (\<lambda>b. char_of (unat b)) (takeWhile (\<lambda>b. b \<noteq> 0) bs)" for bs :: "8 word list"
    by (induction bs) (simp_all add: char_of_unat_eq_NUL)
  then show ?thesis
    by (simp add: file_text_def c_str_def shader_code_def string_of_bytes_def)
qed

lemma preamble_eq: "preamble E = gl_version E"
  by (simp add: preamble_def gl_version_def)

lemma log_length_eq: "log_length l = info_log_length_of l"
  by (simp add: log_length_def info_log_length_of_def)

lemma log_text_eq: "log_text l = c_str l"
  by (simp add: log_text_def c_str_def NUL_def)

lemma compiler_says_eq: "compiler_says E t p = compiler E t (shader_source E p)"
  by (simp add: compiler_says_def shader_source_def preamble_eq file_text_eq)

lemma shader_after_compile_eq: "shader_after_compile E t p = compiled E t p"
  by (simp add: shader_after_compile_def compiled_def compiler_says_eq)
     (simp add: shader_source_def preamble_eq file_text_eq)

lemma shader_code_empty_iff: "shader_code E p = [] \<longleftrightarrow> asset_bytes E p = []"
  by (simp add: shader_code_def string_of_bytes_def)

subsection \<open>One rule for each collaborator call\<close>

lemma is_attached_update:
  "\<not> is_attached h ps \<Longrightarrow> is_attached h (AList.update p po ps) = (h \<in> set (attached po))"
  by (induction ps) (auto simp: is_attached_def)

lemma glCreateShader_exec:
  "glCreateShader E t \<lparr>shaders = S, programs = P, last_name = n, trace = T\<rparr> =
     (if create_shader_ok E t
      then (Suc n, \<lparr>shaders = AList.update (Suc n) (created t) S, programs = P, last_name = Suc n,
                    trace = T @ [CreateShader t (Suc n)]\<rparr>)
      else (0, \<lparr>shaders = S, programs = P, last_name = n, trace = T @ [CreateShader t 0]\<rparr>))"
  by (simp add: glCreateShader_def emit_def created_def)

lemma read_asset_raw_exec:
  "read_asset_raw E p \<lparr>shaders = S, programs = P, last_name = n, trace = T\<rparr> =
     (asset_bytes E p, \<lparr>shaders = S, programs = P, last_name = n, trace = T @ [ReadAssetRaw p]\<rparr>)"
  by (simp add: read_asset_raw_def emit_def)

lemma LOG_ERROR_exec:
  "LOG_ERROR fmt args \<lparr>shaders = S, programs = P, last_name = n, trace = T\<rparr> =
     \<lparr>shaders = S, programs = P, last_name = n, trace = T @ [LogError fmt args]\<rparr>"
  by (simp add: LOG_ERROR_def emit_def)

lemma glShaderSource_exec:
  "glShaderSource h strs \<lparr>shaders = S, programs = P, last_name = n, trace = T\<rparr> =
     \<lparr>shaders = (case shader_named S h of None \<Rightarrow> S
                 | Some so \<Rightarrow> AList.update h (so\<lparr>source := concat strs\<rparr>) S),
      programs = P, last_name = n, trace = T @ [ShaderSource h strs]\<rparr>"
  by (simp add: glShaderSource_def emit_def split: option.split)

lemma glCompileShader_exec:
  "glCompileShader E h \<lparr>shaders = S, programs = P, last_name = n, trace = T\<rparr> =
     \<lparr>shaders = (case shader_named S h of None \<Rightarrow> S
                 | Some so \<Rightarrow> AList.update h
                     (so\<lparr>compile_status := fst (compiler E (stype so) (source so)),
                         shader_log := snd (compiler E (stype so) (source so))\<rparr>) S),
      programs = P, last_name = n, trace = T @ [CompileShader h]\<rparr>"
  by (simp add: glCompileShader_def emit_def split_def Let_def split: option.split)

lemma glGetShaderiv_exec:
  "glGetShaderiv h pn old \<lparr>shaders = S, programs = P, last_name = n, trace = T\<rparr> =
     (let written =
            (case shader_named S h of
               None \<Rightarrow> None
             | Some so \<Rightarrow>
                 (case pn of
                    GL_COMPILE_STATUS \<Rightarrow> Some (if compile_status so then 1 else 0)
                  | GL_INFO_LOG_LENGTH \<Rightarrow> Some (info_log_length_of (shader_log so))
                  | GL_LINK_STATUS \<Rightarrow> None))
      in (case written of None \<Rightarrow> old | Some v \<Rightarrow> v,
          \<lparr>shaders = S, programs = P, last_name = n, trace = T @ [GetShaderiv h pn written]\<rparr>))"
  by (simp add: glGetShaderiv_def emit_def Let_def)

lemma glGetShaderInfoLog_exec:
  "glGetShaderInfoLog h bufSize buf \<lparr>shaders = S, programs = P, last_name = n, trace = T\<rparr> =
     (case shader_named S h of None \<Rightarrow> buf
      | Some so \<Rightarrow> write_info_log (shader_log so) bufSize buf,
      \<lparr>shaders = S, programs = P, last_name = n, trace = T @ [GetShaderInfoLog h bufSize]\<rparr>)"
  by (simp add: glGetShaderInfoLog_def emit_def)

lemma glCreateProgram_exec:
  "glCreateProgram E \<lparr>shaders = S, programs = P, last_name = n, trace = T\<rparr> =
     (if create_program_ok E
      then (Suc n, \<lparr>shaders = S,
                    programs = AList.update (Suc n)
                                 \<lparr>attached = [], link_status = False, program_log = []\<rparr> P,
                    last_name = Suc n, trace = T @ [CreateProgram (Suc n)]\<rparr>)
      else (0, \<lparr>shaders = S, programs = P, last_name = n, trace = T @ [CreateProgram 0]\<rparr>))"
  by (simp add: glCreateProgram_def emit_def)

lemma glAttachShader_exec:
  "glAttachShader p h \<lparr>shaders = S, programs = P, last_name = n, trace = T\<rparr> =
     \<lparr>shaders = S,
      programs = (case program_named P p of None \<Rightarrow> P
                  | Some po \<Rightarrow>
                      (case shader_named S h of None \<Rightarrow> P
                       | Some so \<Rightarrow>
                           if h \<in> set (attached po) then P
                           else AList.update p (po\<lparr>attached := attached po @ [h]\<rparr>) P)),
      last_name = n, trace = T @ [AttachShader p h]\<rparr>"
  by (simp add: glAttachShader_def emit_def split: option.split)

lemma glLinkProgram_exec:
  "glLinkProgram E p \<lparr>shaders = S, programs = P, last_name = n, trace = T\<rparr> =
     \<lparr>shaders = S,
      programs = (case program_named P p of None \<Rightarrow> P
                  | Some po \<Rightarrow> AList.update p
                      (po\<lparr>link_status := fst (linker E (List.map_filter (shader_named S) (attached po))),
                          program_log := snd (linker E (List.map_filter (shader_named S) (attached po)))\<rparr>) P),
      last_name = n, trace = T @ [LinkProgram p]\<rparr>"
  by (simp add: glLinkProgram_def emit_def split_def Let_def split: option.split)

lemma glGetProgramiv_exec:
  "glGetProgramiv p pn old \<lparr>shaders = S, programs = P, last_name = n, trace = T\<rparr> =
     (let written =
            (case program_named P p of
               None \<Rightarrow> None
             | Some po \<Rightarrow>
                 (case pn of
                    GL_LINK_STATUS \<Rightarrow> Some (if link_status po then 1 else 0)
                  | GL_INFO_LOG_LENGTH \<Rightarrow> Some (info_log_length_of (program_log po))
                  | GL_COMPILE_STATUS \<Rightarrow> None))
      in (case written of None \<Rightarrow> old | Some v \<Rightarrow> v,
          \<lparr>shaders = S, programs = P, last_name = n, trace = T @ [GetProgramiv p pn written]\<rparr>))"
  by (simp add: glGetProgramiv_def emit_def Let_def)

lemma glGetProgramInfoLog_exec:
  "glGetProgramInfoLog p bufSize buf \<lparr>shaders = S, programs = P, last_name = n, trace = T\<rparr> =
     (case program_named P p of None \<Rightarrow> buf
      | Some po \<Rightarrow> write_info_log (program_log po) bufSize buf,
      \<lparr>shaders = S, programs = P, last_name = n, trace = T @ [GetProgramInfoLog p bufSize]\<rparr>)"
  by (simp add: glGetProgramInfoLog_def emit_def)

lemma glDetachShader_exec:
  "glDetachShader p h \<lparr>shaders = S, programs = P, last_name = n, trace = T\<rparr> =
     (case program_named P p of
        None \<Rightarrow> \<lparr>shaders = S, programs = P, last_name = n, trace = T @ [DetachShader p h]\<rparr>
      | Some po \<Rightarrow>
          if h \<in> set (attached po)
          then \<lparr>shaders =
                  (case shader_named S h of None \<Rightarrow> S
                   | Some so \<Rightarrow>
                       if delete_pending so \<and>
                          \<not> is_attached h (AList.update p (po\<lparr>attached := removeAll h (attached po)\<rparr>) P)
                       then AList.delete h S else S),
                programs = AList.update p (po\<lparr>attached := removeAll h (attached po)\<rparr>) P,
                last_name = n, trace = T @ [DetachShader p h]\<rparr>
          else \<lparr>shaders = S, programs = P, last_name = n, trace = T @ [DetachShader p h]\<rparr>)"
  by (simp add: glDetachShader_def release_shader_def emit_def split: option.split)

lemma glDeleteShader_exec:
  "glDeleteShader h \<lparr>shaders = S, programs = P, last_name = n, trace = T\<rparr> =
     \<lparr>shaders =
        (case shader_named S h of None \<Rightarrow> S
         | Some so \<Rightarrow>
             if is_attached h P then AList.update h (so\<lparr>delete_pending := True\<rparr>) S
             else AList.delete h S),
      programs = P, last_name = n, trace = T @ [DeleteShader h]\<rparr>"
  by (simp add: glDeleteShader_def emit_def split: option.split)

lemmas exec_simps =
  glCreateShader_exec read_asset_raw_exec LOG_ERROR_exec glShaderSource_exec
  glCompileShader_exec glGetShaderiv_exec glGetShaderInfoLog_exec glCreateProgram_exec
  glAttachShader_exec glLinkProgram_exec glGetProgramiv_exec glGetProgramInfoLog_exec
  glDetachShader_exec glDeleteShader_exec

lemmas run_simps =
  load_shaders_def exec_simps Let_def shader_named_def program_named_def
  shader_code_def compiled_def created_def linked_def shader_source_def
  update_conv' c_str_gl_version message_buffer_driver info_log_roundtrip

lemmas name_defs = vs_name_def fs_name_def program_name_def

subsection \<open>The paths on which the driver creates every object\<close>

lemma run_empty:
  assumes "create_shader_ok E GL_VERTEX_SHADER" "create_shader_ok E GL_FRAGMENT_SHADER"
    and "shader_code E vp = [] \<or> shader_code E fp = []"
  shows "load_shaders E vp fp \<lparr>shaders = S, programs = P, last_name = n, trace = T\<rparr> =
    (Inr None,
     \<lparr>shaders = AList.update (Suc (Suc n)) (created GL_FRAGMENT_SHADER)
                  (AList.update (Suc n) (created GL_VERTEX_SHADER) S),
      programs = P, last_name = Suc (Suc n),
      trace = T @ [CreateShader GL_VERTEX_SHADER (Suc n), CreateShader GL_FRAGMENT_SHADER (Suc (Suc n)),
                   ReadAssetRaw vp, ReadAssetRaw fp,
                   LogError ''Couldn't open shader: {}'' [ArgPath vp]]\<rparr>)"
  using assms by (simp add: run_simps)

lemma run_vertex_failed:
  assumes "create_shader_ok E GL_VERTEX_SHADER" "create_shader_ok E GL_FRAGMENT_SHADER"
    and "shader_code E vp \<noteq> []" "shader_code E fp \<noteq> []"
    and "\<not> compile_status (compiled E GL_VERTEX_SHADER vp)"
  shows "load_shaders E vp fp \<lparr>shaders = S, programs = P, last_name = n, trace = T\<rparr> =
    (Inr None,
     \<lparr>shaders = AList.update (Suc n) (compiled E GL_VERTEX_SHADER vp)
                  (AList.update (Suc (Suc n)) (created GL_FRAGMENT_SHADER)
                    (AList.update (Suc n) (created GL_VERTEX_SHADER) S)),
      programs = P, last_name = Suc (Suc n),
      trace = T @ [CreateShader GL_VERTEX_SHADER (Suc n), CreateShader GL_FRAGMENT_SHADER (Suc (Suc n)),
                   ReadAssetRaw vp, ReadAssetRaw fp,
                   ShaderSource (Suc n) [gl_version E, c_str (shader_code E vp)],
                   CompileShader (Suc n),
                   GetShaderiv (Suc n) GL_COMPILE_STATUS (Some 0),
                   GetShaderiv (Suc n) GL_INFO_LOG_LENGTH
                     (Some (info_log_length_of (shader_log (compiled E GL_VERTEX_SHADER vp)))),
                   GetShaderInfoLog (Suc n)
                     (info_log_length_of (shader_log (compiled E GL_VERTEX_SHADER vp))),
                   LogError ''Error compiling vertex shader: {}\<newline>''
                     [ArgCStr (c_str (shader_log (compiled E GL_VERTEX_SHADER vp)))]]\<rparr>)"
  using assms by (simp add: run_simps)

lemma run_linked:
  assumes "create_shader_ok E GL_VERTEX_SHADER" "create_shader_ok E GL_FRAGMENT_SHADER"
    and "create_program_ok E"
    and "shader_code E vp \<noteq> []" "shader_code E fp \<noteq> []"
    and "compile_status (compiled E GL_VERTEX_SHADER vp)"
    and "compile_status (compiled E GL_FRAGMENT_SHADER fp)"
    and "link_status (linked E vp fp [])"
    and "\<not> is_attached (Suc n) P" "\<not> is_attached (Suc (Suc n)) P"
  shows "load_shaders E vp fp \<lparr>shaders = S, programs = P, last_name = n, trace = T\<rparr> =
    (Inr (GLObject_init E (Suc (Suc (Suc n))) glDeleteProgram),
     \<lparr>shaders = AList.delete (Suc (Suc n)) (AList.delete (Suc n) S),
      programs = AList.update (Suc (Suc (Suc n))) (linked E vp fp []) P,
      last_name = Suc (Suc (Suc n)),
      trace = T @ [CreateShader GL_VERTEX_SHADER (Suc n), CreateShader GL_FRAGMENT_SHADER (Suc (Suc n)),
                   ReadAssetRaw vp, ReadAssetRaw fp,
                   ShaderSource (Suc n) [gl_version E, c_str (shader_code E vp)],
                   CompileShader (Suc n),
                   GetShaderiv (Suc n) GL_COMPILE_STATUS (Some 1),
                   GetShaderiv (Suc n) GL_INFO_LOG_LENGTH
                     (Some (info_log_length_of (shader_log (compiled E GL_VERTEX_SHADER vp)))),
                   ShaderSource (Suc (Suc n)) [gl_version E, c_str (shader_code E fp)],
                   CompileShader (Suc (Suc n)),
                   GetShaderiv (Suc (Suc n)) GL_COMPILE_STATUS (Some 1),
                   GetShaderiv (Suc (Suc n)) GL_INFO_LOG_LENGTH
                     (Some (info_log_length_of (shader_log (compiled E GL_FRAGMENT_SHADER fp)))),
                   CreateProgram (Suc (Suc (Suc n))),
                   AttachShader (Suc (Suc (Suc n))) (Suc n),
                   AttachShader (Suc (Suc (Suc n))) (Suc (Suc n)),
                   LinkProgram (Suc (Suc (Suc n))),
                   GetProgramiv (Suc (Suc (Suc n))) GL_LINK_STATUS (Some 1),
                   GetProgramiv (Suc (Suc (Suc n))) GL_INFO_LOG_LENGTH
                     (Some (info_log_length_of (program_log (linked E vp fp [])))),
                   DetachShader (Suc (Suc (Suc n))) (Suc n),
                   DetachShader (Suc (Suc (Suc n))) (Suc (Suc n)),
                   DeleteShader (Suc n), DeleteShader (Suc (Suc n))]\<rparr>)"
  using assms
  by (simp add: run_simps is_attached_update delete_update_same delete_update)

subsection \<open>Every run is the linear pass\<close>

lemma string_of_bytes_empty_iff: "string_of_bytes bs = [] \<longleftrightarrow> bs = []"
  by (simp add: string_of_bytes_def)

lemma message_buffer_indeterminate:
  "m < 0 \<Longrightarrow> message_buffer m = Inl Length_error"
  "message_buffer 0 = Inl Undefined_behaviour"
  "0 < m \<Longrightarrow> message_buffer m = Inr (replicate (nat m) NUL)"
  by (simp_all add: message_buffer_def)

lemmas spec_simps =
  linear_pass_def linear_result_def setup_events_def compile_events_def
  compile_failure_events_def link_events_def link_failure_events_def cleanup_events_def
  vertex_check_passes_def fragment_check_fails_def link_check_fails_def
  vs_name_def fs_name_def program_name_def linker_says_def
  preamble_eq file_text_eq log_length_eq log_text_eq compiler_says_eq shader_after_compile_eq
  string_of_bytes_empty_iff GLObject_init_def c_str_replicate_NUL

lemma load_shaders_run:
  "fst (load_shaders E vp fp \<lparr>shaders = S, programs = P, last_name = n, trace = T\<rparr>) = linear_result E vp fp \<lparr>shaders = S, programs = P, last_name = n, trace = T\<rparr> \<and>
   trace (snd (load_shaders E vp fp \<lparr>shaders = S, programs = P, last_name = n, trace = T\<rparr>)) = T @ linear_pass E vp fp \<lparr>shaders = S, programs = P, last_name = n, trace = T\<rparr>"
proof (cases "asset_bytes E vp = [] \<or> asset_bytes E fp = []")
  case True
  then show ?thesis by (simp add: run_simps spec_simps)
next
  case present: False
  show ?thesis
  proof (cases "create_shader_ok E GL_VERTEX_SHADER")
    case no_vs: False
    consider "indeterminate E + 1 < 0" | "indeterminate E + 1 = 0" | "0 < indeterminate E + 1"
      by linarith
    then show ?thesis
    proof cases
      case 1
      with present no_vs show ?thesis
        by (simp add: run_simps spec_simps message_buffer_indeterminate)
    next
      case 2
      with present no_vs show ?thesis
        by (simp add: run_simps spec_simps message_buffer_indeterminate)
    next
      case 3
      with present no_vs show ?thesis
        by (simp add: run_simps spec_simps message_buffer_indeterminate)
    qed
  next
    case vs: True
    show ?thesis
    proof (cases "fst (compiler E GL_VERTEX_SHADER (shader_source E vp))")
      case False
      with present vs show ?thesis by (simp add: run_simps spec_simps)
    next
      case vertex: True
      show ?thesis
      proof (cases "create_shader_ok E GL_FRAGMENT_SHADER")
        case fs: True
        show ?thesis
        proof (cases "fst (compiler E GL_FRAGMENT_SHADER (shader_source E fp))")
          case False
          with present vs vertex fs show ?thesis by (simp add: run_simps spec_simps)
        next
          case fragment: True
          show ?thesis
          proof (cases "create_program_ok E")
            case False
            with present vs vertex fs fragment show ?thesis by (simp add: run_simps spec_simps)
          next
            case prog: True
            show ?thesis
            proof (cases "fst (linker E [compiled E GL_VERTEX_SHADER vp, compiled E GL_FRAGMENT_SHADER fp])")
              case False
              with present vs vertex fs fragment prog show ?thesis
                by (simp add: run_simps spec_simps)
            next
              case True
              with present vs vertex fs fragment prog show ?thesis
                by (simp add: run_simps spec_simps)
            qed
          qed
        qed
      next
        case no_fs: False
        show ?thesis
        proof (cases "create_program_ok E")
          case False
          with present vs vertex no_fs show ?thesis by (simp add: run_simps spec_simps)
        next
          case prog: True
          show ?thesis
          proof (cases "fst (linker E [compiled E GL_VERTEX_SHADER vp])")
            case False
            with present vs vertex no_fs prog show ?thesis
              by (simp add: run_simps spec_simps)
          next
            case True
            with present vs vertex no_fs prog show ?thesis
              by (simp add: run_simps spec_simps)
          qed
        qed
      qed
    qed
  qed
qed

lemma load_shaders_events:
  "new_events w (snd (load_shaders E vp fp w)) = linear_pass E vp fp w"
  by (cases w) (simp add: new_events_def load_shaders_run)

lemma load_shaders_result:
  "fst (load_shaders E vp fp w) = linear_result E vp fp w"
  by (cases w) (simp add: load_shaders_run)

text \<open>The program store: untouched when the sources are rejected, and after a link that passed.\<close>

lemma run_empty_programs:
  assumes "asset_bytes E vp = [] \<or> asset_bytes E fp = []"
  shows "programs (snd (load_shaders E vp fp \<lparr>shaders = S, programs = P, last_name = n, trace = T\<rparr>)) = P"
  using assms by (simp add: run_simps spec_simps)


subsection \<open>The store invariant is kept\<close>

lemma names_fresh_not_attached:
  "names_fresh \<lparr>shaders = S, programs = P, last_name = n, trace = T\<rparr> \<Longrightarrow> n < k \<Longrightarrow> \<not> is_attached k P"
  by (induction P) (auto simp: names_fresh_def is_attached_def list_all_iff)

lemma names_fresh_mono:
  "names_fresh \<lparr>shaders = S, programs = P, last_name = n, trace = T\<rparr> \<Longrightarrow> n \<le> m \<Longrightarrow>
   names_fresh \<lparr>shaders = S', programs = P, last_name = m, trace = T'\<rparr>"
  by (induction P) (auto simp: names_fresh_def list_all_iff)

lemma names_fresh_update:
  "names_fresh \<lparr>shaders = S, programs = P, last_name = n, trace = T\<rparr> \<Longrightarrow>
   list_all (\<lambda>h. h \<le> n) (attached po) \<Longrightarrow>
   names_fresh \<lparr>shaders = S', programs = AList.update p po P, last_name = n, trace = T'\<rparr>"
  by (induction P) (auto simp: names_fresh_def list_all_iff)

lemma names_fresh_step:
  assumes "names_fresh \<lparr>shaders = S, programs = P, last_name = n, trace = T\<rparr>" and "n \<le> m"
  shows "names_fresh \<lparr>shaders = S', programs = P, last_name = m, trace = T'\<rparr>"
    and "list_all (\<lambda>h. h \<le> m) hs \<Longrightarrow>
         names_fresh \<lparr>shaders = S',
                      programs = AList.update p \<lparr>attached = hs, link_status = b, program_log = l\<rparr> P,
                      last_name = m, trace = T'\<rparr>"
proof -
  show *: "names_fresh \<lparr>shaders = S'', programs = P, last_name = m, trace = T''\<rparr>" for S'' T''
    using assms by (rule names_fresh_mono)
  show "names_fresh \<lparr>shaders = S',
                      programs = AList.update p \<lparr>attached = hs, link_status = b, program_log = l\<rparr> P,
                      last_name = m, trace = T'\<rparr>"
    if "list_all (\<lambda>h. h \<le> m) hs"
    using * [of S' T'] that by (rule names_fresh_update [where po = "\<lparr>attached = hs, link_status = b, program_log = l\<rparr>", simplified])
qed

lemma names_fresh_load_shaders:
  assumes "names_fresh w"
  shows "names_fresh (snd (load_shaders E vp fp w))"
proof (cases w)
  case (fields S P n T)
  note fresh = assms [unfolded fields]
  note step = names_fresh_step [OF fresh]
  show ?thesis
    unfolding fields
  proof (cases "asset_bytes E vp = [] \<or> asset_bytes E fp = []")
    case True
    then show "names_fresh (snd (load_shaders E vp fp \<lparr>shaders = S, programs = P, last_name = n, trace = T\<rparr>))"
      by (simp add: run_simps spec_simps step)
  next
    case present: False
    show "names_fresh (snd (load_shaders E vp fp \<lparr>shaders = S, programs = P, last_name = n, trace = T\<rparr>))"
    proof (cases "create_shader_ok E GL_VERTEX_SHADER")
      case no_vs: False
      consider "indeterminate E + 1 < 0" | "indeterminate E + 1 = 0" | "0 < indeterminate E + 1"
        by linarith
      then show ?thesis
      proof cases
        case 1
        with present no_vs show ?thesis
          by (simp add: run_simps spec_simps message_buffer_indeterminate step)
      next
        case 2
        with present no_vs show ?thesis
          by (simp add: run_simps spec_simps message_buffer_indeterminate step)
      next
        case 3
        with present no_vs show ?thesis
          by (simp add: run_simps spec_simps message_buffer_indeterminate step)
      qed
    next
      case vs: True
      show ?thesis
      proof (cases "fst (compiler E GL_VERTEX_SHADER (shader_source E vp))")
        case False
        with present vs show ?thesis by (simp add: run_simps spec_simps step)
      next
        case vertex: True
        show ?thesis
        proof (cases "create_shader_ok E GL_FRAGMENT_SHADER")
          case fs: True
          show ?thesis
          proof (cases "fst (compiler E GL_FRAGMENT_SHADER (shader_source E fp))")
            case False
            with present vs vertex fs show ?thesis by (simp add: run_simps spec_simps step)
          next
            case fragment: True
            show ?thesis
            proof (cases "create_program_ok E")
              case False
              with present vs vertex fs fragment show ?thesis
                by (simp add: run_simps spec_simps step)
            next
              case prog: True
              show ?thesis
              proof (cases "fst (linker E [compiled E GL_VERTEX_SHADER vp, compiled E GL_FRAGMENT_SHADER fp])")
                case False
                with present vs vertex fs fragment prog show ?thesis
                  by (simp add: run_simps spec_simps step)
              next
                case True
                with present vs vertex fs fragment prog show ?thesis
                  by (simp add: run_simps spec_simps step)
              qed
            qed
          qed
        next
          case no_fs: False
          show ?thesis
          proof (cases "create_program_ok E")
            case False
            with present vs vertex no_fs show ?thesis by (simp add: run_simps spec_simps step)
          next
            case prog: True
            show ?thesis
            proof (cases "fst (linker E [compiled E GL_VERTEX_SHADER vp])")
              case False
              with present vs vertex no_fs prog show ?thesis
                by (simp add: run_simps spec_simps step)
            next
              case True
              with present vs vertex no_fs prog show ?thesis
                by (simp add: run_simps spec_simps step)
            qed
          qed
        qed
      qed
    qed
  qed
qed

subsection \<open>The sample installation\<close>

lemma sample_text:
  "string_of_bytes (sample_assets ''vertex.glsl'') = ''void main(){}''"
  "string_of_bytes (sample_assets ''fragment.glsl'') = ''void main(){}\<newline>''"
  by code_simp+


lemma sample_bytes:
  "sample_assets ''vertex.glsl'' \<noteq> []" "sample_assets ''fragment.glsl'' \<noteq> []"
  "sample_assets ''missing.glsl'' = []"
  by (simp_all add: sample_assets_def)

lemmas sample_simps =
  sample_env_def fresh_context_def sample_bytes
  preamble_def gl_version_def compiler_says_def linker_says_def log_length_def log_text_def
  linear_pass_def linear_result_def setup_events_def compile_events_def
  compile_failure_events_def link_events_def link_failure_events_def cleanup_events_def
  vertex_check_passes_def fragment_check_fails_def link_check_fails_def
  vs_name_def fs_name_def program_name_def compiled_def linked_def

lemmas model_view =
  preamble_eq file_text_eq log_length_eq log_text_eq compiler_says_eq shader_after_compile_eq
  shader_code_def compiled_def linked_def

section \<open>The claims\<close>




text \<open>
  Claim C2, as the code has it. Whenever reading the vertex or the fragment file yields
  no bytes, \<^verbatim>\<open>load_shaders\<close> logs one error and returns an empty result, and creates no
  program object. \<^verbatim>\<open>glCreateShader\<close> is called for both stages before either file is
  read, and these two are the only creation calls the run makes.
\<close>

theorem empty_asset_creates_no_program:
  assumes "asset_bytes E vertex_file_path = [] \<or> asset_bytes E fragment_file_path = []"
    and "load_shaders E vertex_file_path fragment_file_path w = (r, w')"
  shows "r = Inr None \<and>
         filter is_log (new_events w w') =
           [LogError ''Couldn't open shader: {}'' [ArgPath vertex_file_path]] \<and>
         programs w' = programs w \<and>
         filter is_creation (new_events w w') =
           [CreateShader GL_VERTEX_SHADER (vs_name E w),
            CreateShader GL_FRAGMENT_SHADER (fs_name E w)] \<and>
         filter (\<lambda>e. is_creation e \<or> is_read e) (new_events w w') =
           [CreateShader GL_VERTEX_SHADER (vs_name E w),
            CreateShader GL_FRAGMENT_SHADER (fs_name E w),
            ReadAssetRaw vertex_file_path, ReadAssetRaw fragment_file_path]"
proof -
  obtain S P n T where w: "w = \<lparr>shaders = S, programs = P, last_name = n, trace = T\<rparr>"
    by (cases w)
  from assms(2) have r: "r = fst (load_shaders E vertex_file_path fragment_file_path w)"
    and w': "w' = snd (load_shaders E vertex_file_path fragment_file_path w)"
    by simp_all
  have "programs w' = programs w"
    unfolding w' w using assms(1) by (simp add: run_empty_programs)
  with assms(1) show ?thesis
    unfolding r w'
    by (simp add: load_shaders_result load_shaders_events linear_result_def linear_pass_def
          setup_events_def)
qed

theorem empty_asset_creates_no_program_witness:
  "asset_bytes sample_env ''missing.glsl'' = [] \<and>
   fst (load_shaders sample_env ''missing.glsl'' ''fragment.glsl'' fresh_context) = Inr None \<and>
   filter is_log
     (new_events fresh_context
        (snd (load_shaders sample_env ''missing.glsl'' ''fragment.glsl'' fresh_context))) =
     [LogError ''Couldn't open shader: {}'' [ArgPath ''missing.glsl'']] \<and>
   programs (snd (load_shaders sample_env ''missing.glsl'' ''fragment.glsl'' fresh_context)) = [] \<and>
   filter is_creation
     (new_events fresh_context
        (snd (load_shaders sample_env ''missing.glsl'' ''fragment.glsl'' fresh_context))) =
     [CreateShader GL_VERTEX_SHADER 1, CreateShader GL_FRAGMENT_SHADER 2] \<and>
   filter (\<lambda>e. is_creation e \<or> is_read e)
     (new_events fresh_context
        (snd (load_shaders sample_env ''missing.glsl'' ''fragment.glsl'' fresh_context))) =
     [CreateShader GL_VERTEX_SHADER 1, CreateShader GL_FRAGMENT_SHADER 2,
      ReadAssetRaw ''missing.glsl'', ReadAssetRaw ''fragment.glsl'']"
  using empty_asset_creates_no_program
          [of sample_env "''missing.glsl''" "''fragment.glsl''" fresh_context
              "fst (load_shaders sample_env ''missing.glsl'' ''fragment.glsl'' fresh_context)"
              "snd (load_shaders sample_env ''missing.glsl'' ''fragment.glsl'' fresh_context)"]
  by (simp add: sample_env_def sample_assets_def fresh_context_def vs_name_def fs_name_def)

text \<open>
  The claim as stated says that no shader object is created on this path. With a missing
  vertex file, the store after the call holds two shader objects.
\<close>

theorem empty_asset_creates_shader_objects:
  "asset_bytes sample_env ''missing.glsl'' = [] \<and>
   shaders (snd (load_shaders sample_env ''missing.glsl'' ''fragment.glsl'' fresh_context)) =
     [(1, created GL_VERTEX_SHADER), (2, created GL_FRAGMENT_SHADER)] \<and>
   filter is_creation
     (new_events fresh_context
        (snd (load_shaders sample_env ''missing.glsl'' ''fragment.glsl'' fresh_context))) =
     [CreateShader GL_VERTEX_SHADER 1, CreateShader GL_FRAGMENT_SHADER 2]"
proof -
  have "create_shader_ok sample_env GL_VERTEX_SHADER" "create_shader_ok sample_env GL_FRAGMENT_SHADER"
    "shader_code sample_env ''missing.glsl'' = [] \<or> shader_code sample_env ''fragment.glsl'' = []"
    by (simp_all add: sample_env_def shader_code_empty_iff sample_bytes)
  from run_empty [OF this, of "[]" "[]" 0 "[]"] show ?thesis
    by (simp add: fresh_context_def new_events_def sample_env_def sample_bytes)
qed

text \<open>
  Claim C3 says that the two shader objects are deleted on every exit path. With a
  compiler that rejects the vertex source, the call returns empty, both shader objects
  are still in the store, and the call made no detach or delete call at all.
\<close>

theorem compile_failure_leaves_shader_objects:
  "fst (load_shaders (sample_env\<lparr>compiler := \<lambda>t s. (False, ''0:1: syntax error'')\<rparr>)
          ''vertex.glsl'' ''fragment.glsl'' fresh_context) = Inr None \<and>
   map fst (shaders (snd (load_shaders (sample_env\<lparr>compiler := \<lambda>t s. (False, ''0:1: syntax error'')\<rparr>)
          ''vertex.glsl'' ''fragment.glsl'' fresh_context))) = [1, 2] \<and>
   filter is_cleanup
     (new_events fresh_context
        (snd (load_shaders (sample_env\<lparr>compiler := \<lambda>t s. (False, ''0:1: syntax error'')\<rparr>)
          ''vertex.glsl'' ''fragment.glsl'' fresh_context))) = []"
proof -
  let ?E = "sample_env\<lparr>compiler := \<lambda>t s. (False, ''0:1: syntax error'')\<rparr>"
  have "create_shader_ok ?E GL_VERTEX_SHADER" "create_shader_ok ?E GL_FRAGMENT_SHADER"
    "shader_code ?E ''vertex.glsl'' \<noteq> []" "shader_code ?E ''fragment.glsl'' \<noteq> []"
    "\<not> compile_status (compiled ?E GL_VERTEX_SHADER ''vertex.glsl'')"
    by (simp_all add: sample_env_def shader_code_empty_iff sample_bytes compiled_def)
  from run_vertex_failed [OF this, of "[]" "[]" 0 "[]"] show ?thesis
    by (simp add: fresh_context_def new_events_def)
qed




text \<open>
  Claim C5, as the code has it. Both stages compile and the program links when the
  driver creates the two shader objects and the program object, the compiler accepts
  both sources and the linker accepts the pair. The call then detaches both shader
  objects from the program and deletes them, so that neither is in the store afterwards,
  and the linked program stays. It returns a non-empty wrapper that binds the program's
  name to \<^verbatim>\<open>glDeleteProgram\<close> if the wrapper's \<^verbatim>\<open>init\<close> accepts the name, and an empty
  result otherwise.
\<close>

theorem success_deletes_shaders_and_wraps_program:
  assumes "names_fresh w"
    and "create_shader_ok E GL_VERTEX_SHADER" "create_shader_ok E GL_FRAGMENT_SHADER"
    and "create_program_ok E"
    and "asset_bytes E vertex_file_path \<noteq> []" "asset_bytes E fragment_file_path \<noteq> []"
    and "compile_status (compiled E GL_VERTEX_SHADER vertex_file_path)"
    and "compile_status (compiled E GL_FRAGMENT_SHADER fragment_file_path)"
    and "link_status (linked E vertex_file_path fragment_file_path [])"
    and "load_shaders E vertex_file_path fragment_file_path w = (r, w')"
  shows "filter is_cleanup (new_events w w') =
           [DetachShader (Suc (Suc (Suc (last_name w)))) (Suc (last_name w)),
            DetachShader (Suc (Suc (Suc (last_name w)))) (Suc (Suc (last_name w))),
            DeleteShader (Suc (last_name w)), DeleteShader (Suc (Suc (last_name w)))] \<and>
         shaders w' =
           AList.delete (Suc (Suc (last_name w))) (AList.delete (Suc (last_name w)) (shaders w)) \<and>
         map_of (shaders w') (Suc (last_name w)) = None \<and>
         map_of (shaders w') (Suc (Suc (last_name w))) = None \<and>
         map_option link_status (map_of (programs w') (Suc (Suc (Suc (last_name w))))) = Some True \<and>
         r = Inr (if init_ok E (Suc (Suc (Suc (last_name w))))
                  then Some \<lparr>name = Suc (Suc (Suc (last_name w))), deleter = glDeleteProgram\<rparr>
                  else None)"
proof -
  obtain S P n T where w: "w = \<lparr>shaders = S, programs = P, last_name = n, trace = T\<rparr>"
    by (cases w)
  from assms(1) have fresh: "\<not> is_attached (Suc n) P" "\<not> is_attached (Suc (Suc n)) P"
    unfolding w
    using names_fresh_not_attached [of S P n T "Suc n"]
      names_fresh_not_attached [of S P n T "Suc (Suc n)"]
    by simp_all
  from assms(5,6)
  have present: "shader_code E vertex_file_path \<noteq> []" "shader_code E fragment_file_path \<noteq> []"
    by (simp_all add: shader_code_empty_iff)
  note run = run_linked [OF assms(2-4) present assms(7-9) fresh, of S T]
  from assms(10) assms(9) show ?thesis
    unfolding w run
    by (auto simp: new_events_def GLObject_init_def update_conv' delete_conv' linked_def)
qed

theorem success_deletes_shaders_and_wraps_program_witness:
  "names_fresh fresh_context \<and>
   create_shader_ok sample_env GL_VERTEX_SHADER \<and> create_shader_ok sample_env GL_FRAGMENT_SHADER \<and>
   create_program_ok sample_env \<and>
   asset_bytes sample_env ''vertex.glsl'' \<noteq> [] \<and> asset_bytes sample_env ''fragment.glsl'' \<noteq> [] \<and>
   compile_status (compiled sample_env GL_VERTEX_SHADER ''vertex.glsl'') \<and>
   compile_status (compiled sample_env GL_FRAGMENT_SHADER ''fragment.glsl'') \<and>
   link_status (linked sample_env ''vertex.glsl'' ''fragment.glsl'' []) \<and>
   filter is_cleanup
     (new_events fresh_context
        (snd (load_shaders sample_env ''vertex.glsl'' ''fragment.glsl'' fresh_context))) =
     [DetachShader 3 1, DetachShader 3 2, DeleteShader 1, DeleteShader 2] \<and>
   shaders (snd (load_shaders sample_env ''vertex.glsl'' ''fragment.glsl'' fresh_context)) = [] \<and>
   fst (load_shaders sample_env ''vertex.glsl'' ''fragment.glsl'' fresh_context) =
     Inr (Some \<lparr>name = 3, deleter = glDeleteProgram\<rparr>)"
proof -
  have h: "names_fresh fresh_context"
    "create_shader_ok sample_env GL_VERTEX_SHADER" "create_shader_ok sample_env GL_FRAGMENT_SHADER"
    "create_program_ok sample_env"
    "asset_bytes sample_env ''vertex.glsl'' \<noteq> []" "asset_bytes sample_env ''fragment.glsl'' \<noteq> []"
    "compile_status (compiled sample_env GL_VERTEX_SHADER ''vertex.glsl'')"
    "compile_status (compiled sample_env GL_FRAGMENT_SHADER ''fragment.glsl'')"
    "link_status (linked sample_env ''vertex.glsl'' ''fragment.glsl'' [])"
    by (simp_all add: names_fresh_def fresh_context_def sample_env_def sample_assets_def
          compiled_def linked_def)
  have run: "load_shaders sample_env ''vertex.glsl'' ''fragment.glsl'' fresh_context =
     (fst (load_shaders sample_env ''vertex.glsl'' ''fragment.glsl'' fresh_context),
      snd (load_shaders sample_env ''vertex.glsl'' ''fragment.glsl'' fresh_context))"
    by simp
  from success_deletes_shaders_and_wraps_program [OF h run] h show ?thesis
    by (simp add: fresh_context_def sample_env_def eval_nat_numeral)
qed

text \<open>
  The claim as stated promises a non-empty wrapper whenever both stages compile and the
  program links. With an \<^verbatim>\<open>init\<close> that refuses, everything compiles and links, and the
  result is empty.
\<close>

theorem linked_but_init_refused_returns_empty:
  "create_shader_ok (sample_env\<lparr>init_ok := \<lambda>n. False\<rparr>) GL_VERTEX_SHADER \<and>
   create_shader_ok (sample_env\<lparr>init_ok := \<lambda>n. False\<rparr>) GL_FRAGMENT_SHADER \<and>
   create_program_ok (sample_env\<lparr>init_ok := \<lambda>n. False\<rparr>) \<and>
   asset_bytes (sample_env\<lparr>init_ok := \<lambda>n. False\<rparr>) ''vertex.glsl'' \<noteq> [] \<and>
   asset_bytes (sample_env\<lparr>init_ok := \<lambda>n. False\<rparr>) ''fragment.glsl'' \<noteq> [] \<and>
   compile_status (compiled (sample_env\<lparr>init_ok := \<lambda>n. False\<rparr>) GL_VERTEX_SHADER ''vertex.glsl'') \<and>
   compile_status (compiled (sample_env\<lparr>init_ok := \<lambda>n. False\<rparr>) GL_FRAGMENT_SHADER ''fragment.glsl'') \<and>
   link_status (linked (sample_env\<lparr>init_ok := \<lambda>n. False\<rparr>) ''vertex.glsl'' ''fragment.glsl'' []) \<and>
   GetProgramiv 3 GL_LINK_STATUS (Some 1) \<in>
     set (new_events fresh_context
            (snd (load_shaders (sample_env\<lparr>init_ok := \<lambda>n. False\<rparr>)
                    ''vertex.glsl'' ''fragment.glsl'' fresh_context))) \<and>
   fst (load_shaders (sample_env\<lparr>init_ok := \<lambda>n. False\<rparr>)
          ''vertex.glsl'' ''fragment.glsl'' fresh_context) = Inr None"
  by (simp add: load_shaders_result load_shaders_events sample_simps eval_nat_numeral)

text \<open>
  Claim C6. Whenever the vertex or the fragment path resolves to zero bytes,
  \<^verbatim>\<open>load_shaders\<close> returns an empty result and no compiler call is reached: the call
  makes neither a \<^verbatim>\<open>glShaderSource\<close> nor a \<^verbatim>\<open>glCompileShader\<close> call.
\<close>

theorem empty_asset_no_compiler_call:
  assumes "asset_bytes E vertex_file_path = [] \<or> asset_bytes E fragment_file_path = []"
    and "load_shaders E vertex_file_path fragment_file_path w = (r, w')"
  shows "r = Inr None \<and> filter is_compiler_call (new_events w w') = []"
proof -
  from assms(2) have r: "r = fst (load_shaders E vertex_file_path fragment_file_path w)"
    and w': "w' = snd (load_shaders E vertex_file_path fragment_file_path w)"
    by simp_all
  from assms(1) show ?thesis
    unfolding r w'
    by (simp add: load_shaders_result load_shaders_events linear_result_def linear_pass_def
          setup_events_def)
qed

theorem empty_asset_no_compiler_call_witness:
  "asset_bytes sample_env ''missing.glsl'' = [] \<and>
   fst (load_shaders sample_env ''missing.glsl'' ''fragment.glsl'' fresh_context) = Inr None \<and>
   filter is_compiler_call
     (new_events fresh_context
        (snd (load_shaders sample_env ''missing.glsl'' ''fragment.glsl'' fresh_context))) = []"
  using empty_asset_no_compiler_call
          [of sample_env "''missing.glsl''" "''fragment.glsl''" fresh_context
              "fst (load_shaders sample_env ''missing.glsl'' ''fragment.glsl'' fresh_context)"
              "snd (load_shaders sample_env ''missing.glsl'' ''fragment.glsl'' fresh_context)"]
  by (simp add: sample_env_def sample_assets_def)

text \<open>
  Claim C7. The preamble is \<^verbatim>\<open>#version 300 es\<close> with \<^verbatim>\<open>precision highp float;\<close> on
  Android and \<^verbatim>\<open>#version 410 core\<close> otherwise. Every source handed to the driver is
  the pair of the preamble and the text of the file, the preamble first, and it is
  handed over right before the stage is compiled: for the vertex stage whenever both
  files are non-empty, for the fragment stage whenever the vertex stage compiled.
\<close>

theorem preamble_precedes_source:
  assumes "load_shaders E vertex_file_path fragment_file_path w = (r, w')"
  shows "gl_version E =
           (if ANDROID E then ''#version 300 es\<newline>precision highp float;\<newline>''
            else ''#version 410 core\<newline>'') \<and>
         filter is_compiler_call (new_events w w') =
           (if asset_bytes E vertex_file_path = [] \<or> asset_bytes E fragment_file_path = [] then []
            else [ShaderSource (vs_name E w)
                    [gl_version E, c_str (string_of_bytes (asset_bytes E vertex_file_path))],
                  CompileShader (vs_name E w)] @
                 (if create_shader_ok E GL_VERTEX_SHADER \<and>
                     compile_status (compiled E GL_VERTEX_SHADER vertex_file_path)
                  then [ShaderSource (fs_name E w)
                          [gl_version E, c_str (string_of_bytes (asset_bytes E fragment_file_path))],
                        CompileShader (fs_name E w)]
                  else []))"
proof -
  from assms have w': "w' = snd (load_shaders E vertex_file_path fragment_file_path w)"
    by simp
  have "gl_version E =
           (if ANDROID E then ''#version 300 es\<newline>precision highp float;\<newline>''
            else ''#version 410 core\<newline>'')"
    by (simp add: gl_version_def)
  moreover
  have "filter is_compiler_call (linear_pass E vertex_file_path fragment_file_path w) =
           (if asset_bytes E vertex_file_path = [] \<or> asset_bytes E fragment_file_path = [] then []
            else [ShaderSource (vs_name E w)
                    [gl_version E, c_str (string_of_bytes (asset_bytes E vertex_file_path))],
                  CompileShader (vs_name E w)] @
                 (if create_shader_ok E GL_VERTEX_SHADER \<and>
                     compile_status (compiled E GL_VERTEX_SHADER vertex_file_path)
                  then [ShaderSource (fs_name E w)
                          [gl_version E, c_str (string_of_bytes (asset_bytes E fragment_file_path))],
                        CompileShader (fs_name E w)]
                  else []))"
    by (simp add: linear_pass_def setup_events_def compile_events_def compile_failure_events_def
          link_events_def link_failure_events_def cleanup_events_def vertex_check_passes_def
          model_view)
  ultimately show ?thesis
    unfolding w' load_shaders_events by simp
qed

theorem preamble_precedes_source_witness:
  "gl_version sample_env = ''#version 410 core\<newline>'' \<and>
   gl_version (sample_env\<lparr>ANDROID := True\<rparr>) = ''#version 300 es\<newline>precision highp float;\<newline>'' \<and>
   filter is_compiler_call
     (new_events fresh_context
        (snd (load_shaders sample_env ''vertex.glsl'' ''fragment.glsl'' fresh_context))) =
     [ShaderSource 1 [''#version 410 core\<newline>'', ''void main(){}''], CompileShader 1,
      ShaderSource 2 [''#version 410 core\<newline>'', ''void main(){}\<newline>''], CompileShader 2]"
  using preamble_precedes_source
          [of sample_env "''vertex.glsl''" "''fragment.glsl''" fresh_context
              "fst (load_shaders sample_env ''vertex.glsl'' ''fragment.glsl'' fresh_context)"
              "snd (load_shaders sample_env ''vertex.glsl'' ''fragment.glsl'' fresh_context)"]
        preamble_precedes_source
          [of "sample_env\<lparr>ANDROID := True\<rparr>" "''vertex.glsl''" "''fragment.glsl''" fresh_context
              "fst (load_shaders (sample_env\<lparr>ANDROID := True\<rparr>) ''vertex.glsl'' ''fragment.glsl'' fresh_context)"
              "snd (load_shaders (sample_env\<lparr>ANDROID := True\<rparr>) ''vertex.glsl'' ''fragment.glsl'' fresh_context)"]
  by (simp add: sample_env_def compiled_def fresh_context_def sample_text vs_name_def fs_name_def)
     (simp add: sample_assets_def c_str_def NUL_def)




text \<open>
  Claim C9. On the empty or missing file path the one error that is logged names the
  vertex file path, whichever of the two files was empty; in particular when the vertex
  file was read back non-empty and only the fragment file was empty or missing.
\<close>

theorem empty_asset_log_names_vertex_path:
  assumes "asset_bytes E vertex_file_path = [] \<or> asset_bytes E fragment_file_path = []"
    and "load_shaders E vertex_file_path fragment_file_path w = (r, w')"
  shows "filter is_log (new_events w w') =
           [LogError ''Couldn't open shader: {}'' [ArgPath vertex_file_path]]"
proof -
  from assms(2) have w': "w' = snd (load_shaders E vertex_file_path fragment_file_path w)"
    by simp
  from assms(1) show ?thesis
    unfolding w' by (simp add: load_shaders_events linear_pass_def setup_events_def)
qed

theorem empty_asset_log_names_vertex_path_witness:
  "asset_bytes sample_env ''vertex.glsl'' \<noteq> [] \<and> asset_bytes sample_env ''missing.glsl'' = [] \<and>
   filter is_log
     (new_events fresh_context
        (snd (load_shaders sample_env ''vertex.glsl'' ''missing.glsl'' fresh_context))) =
     [LogError ''Couldn't open shader: {}'' [ArgPath ''vertex.glsl'']]"
  using empty_asset_log_names_vertex_path
          [of sample_env "''vertex.glsl''" "''missing.glsl''" fresh_context
              "fst (load_shaders sample_env ''vertex.glsl'' ''missing.glsl'' fresh_context)"
              "snd (load_shaders sample_env ''vertex.glsl'' ''missing.glsl'' fresh_context)"]
  by (simp add: sample_env_def sample_assets_def)

end
